theory Spec2Isabelle
  imports Complex_Main "HOL-Library.Sublist"
begin

section \<open>The error taxonomy (src/errors.ts)\<close>

text \<open>
  \<^verbatim>\<open>ErrorType\<close>, \<open>Surface\<close> and \<open>ErrorVisibility\<close> are unions of string literals.
  Each is a datatype here; \<open>typeString\<close>, \<open>surfaceString\<close> give the literal a constructor
  stands for. The specification calls the surface \<open>webgpu\<close> "api" and the surface
  \<open>canvas\<close> "display_target", and the error type "FailureKind".
\<close>

datatype ErrorType = Unavailable | NotFound | Failed | InitializationFailed

datatype Surface = Webgpu | Adapter | Device | Context | Canvas | Pipeline

datatype ErrorVisibility = User | Log | Both

fun typeString :: "ErrorType \<Rightarrow> string" where
  "typeString Unavailable = ''unavailable''"
| "typeString NotFound = ''not_found''"
| "typeString Failed = ''failed''"
| "typeString InitializationFailed = ''initialization_failed''"

fun surfaceString :: "Surface \<Rightarrow> string" where
  "surfaceString Webgpu = ''webgpu''"
| "surfaceString Adapter = ''adapter''"
| "surfaceString Device = ''device''"
| "surfaceString Context = ''context''"
| "surfaceString Canvas = ''canvas''"
| "surfaceString Pipeline = ''pipeline''"

text \<open>
  \<open>ErrorCode\<close> is the template literal type \<^verbatim>\<open>`${ErrorType}:${Surface}`\<close>: its
  values are the 24 strings \<open>codeString (t, s)\<close>.
\<close>

type_synonym ErrorCode = "ErrorType \<times> Surface"

fun codeString :: "ErrorCode \<Rightarrow> string" where
  "codeString (t, s) = typeString t @ '':'' @ surfaceString s"

text \<open>The six codes that have a subclass of \<open>AppError\<close> and a case in the switch.\<close>

definition definedCodes :: "ErrorCode list" where
  "definedCodes =
     [(Unavailable, Webgpu), (NotFound, Canvas), (NotFound, Adapter),
      (Failed, Device), (InitializationFailed, Context), (Failed, Pipeline)]"

text \<open>\<open>visibilityBySurface\<close>: the record literal, key by key.\<close>

fun visibilityBySurface :: "Surface \<Rightarrow> ErrorVisibility" where
  "visibilityBySurface Webgpu = User"
| "visibilityBySurface Adapter = User"
| "visibilityBySurface Device = Log"
| "visibilityBySurface Context = User"
| "visibilityBySurface Canvas = User"
| "visibilityBySurface Pipeline = Log"

text \<open>
  \<open>getMessageByErrorCode\<close> switches on the code string; the cases are compared in the
  source's order and \<open>default\<close> is the last branch.
\<close>

definition fallbackMessage :: string where
  "fallbackMessage = ''Something went wrong. Please try again later.''"

definition getMessageByErrorCode :: "string \<Rightarrow> string" where
  "getMessageByErrorCode errorCode =
     (if errorCode = ''unavailable:webgpu'' then ''WebGPU is not available in this environment.''
      else if errorCode = ''not_found:canvas'' then ''Canvas element not found.''
      else if errorCode = ''not_found:adapter'' then ''No suitable GPU adapter found.''
      else if errorCode = ''failed:device'' then ''Failed to request a GPU device.''
      else if errorCode = ''initialization_failed:context''
        then ''Failed to initialize WebGPU canvas context.''
      else if errorCode = ''failed:pipeline'' then ''Failed to create render pipeline.''
      else fallbackMessage)"

text \<open>
  The values a \<open>cause\<close> of type \<open>unknown\<close> can hold. Numbers are the finite ones (with
  \<open>+0\<close> and \<open>-0\<close> both the real 0), \<open>NaN\<close> and the two infinities; objects are opaque
  references, except that an instance of \<open>Error\<close> is told apart, since the loggers' callers
  test \<open>instanceof Error\<close>, and so is an object whose conversion to a string throws (one
  without a prototype, or with a \<open>toString\<close> that throws), with the value thrown, since
  the same callers apply \<open>String\<close> to what is not an \<open>Error\<close>.
\<close>

datatype JSValue =
    JUndefined
  | JNull
  | JBool bool
  | JNumber real
  | JNaN
  | JInfinity bool
  | JBigInt int
  | JString string
  | JSymbol nat
  | JObject nat
  | JErrorObject string string
  | JUnprintableObject nat JSValue

text \<open>JavaScript's \<open>ToBoolean\<close>, which \<open>if (this.cause)\<close> applies.\<close>

fun truthy :: "JSValue \<Rightarrow> bool" where
  "truthy JUndefined = False"
| "truthy JNull = False"
| "truthy (JBool b) = b"
| "truthy (JNumber x) = (x \<noteq> 0)"
| "truthy JNaN = False"
| "truthy (JInfinity _) = True"
| "truthy (JBigInt n) = (n \<noteq> 0)"
| "truthy (JString s) = (s \<noteq> [])"
| "truthy (JSymbol _) = True"
| "truthy (JObject _) = True"
| "truthy (JErrorObject _ _) = True"
| "truthy (JUnprintableObject _ _) = True"

text \<open>\<open>if (this.stack)\<close>: \<open>stack\<close> is \<open>string | undefined\<close>, with \<open>None\<close> for undefined.\<close>

fun truthyString :: "string option \<Rightarrow> bool" where
  "truthyString None = False"
| "truthyString (Some s) = (s \<noteq> [])"

text \<open>
  The fields of an \<open>AppError\<close> object: the four the class declares, and \<open>message\<close>,
  \<open>name\<close>, \<open>stack\<close> inherited from \<open>Error\<close>.
\<close>

record AppError =
  etype :: ErrorType
  surface :: Surface
  code :: ErrorCode
  cause :: JSValue
  message :: string
  name :: string
  stack :: "string option"

text \<open>
  \<open>String.prototype.split(":")\<close>: the pieces between the colons; a string without a
  colon is its own single piece.
\<close>

fun split_colon :: "string \<Rightarrow> string list" where
  "split_colon [] = [[]]"
| "split_colon (c # cs) =
     (if c = CHR '':'' then [] # split_colon cs
      else (case split_colon cs of [] \<Rightarrow> [[c]] | w # ws \<Rightarrow> (c # w) # ws))"

text \<open>
  The constructor. \<open>new.target.name\<close>, the name of the class under construction, and
  the stack that \<open>super()\<close> captures are supplied by the caller and the engine. The
  destructuring \<open>[type, surface] = errorCode.split(":")\<close> yields the two components of
  the code (lemma \<open>split_codeString\<close> below), so they are read off the pair. A
  constructor called without an argument has \<open>cause = JUndefined\<close>.
\<close>

definition AppError_new :: "string \<Rightarrow> ErrorCode \<Rightarrow> JSValue \<Rightarrow> string option \<Rightarrow> AppError" where
  "AppError_new className errorCode c stk =
     (case errorCode of (t, s) \<Rightarrow>
        \<lparr> etype = t, surface = s, code = errorCode, cause = c,
          message = getMessageByErrorCode (codeString errorCode),
          name = className, stack = stk \<rparr>)"

definition getVisibility :: "AppError \<Rightarrow> ErrorVisibility" where
  "getVisibility this = visibilityBySurface (surface this)"

definition shouldShowToUser :: "AppError \<Rightarrow> bool" where
  "shouldShowToUser this =
     (let visibility = getVisibility this in visibility = User \<or> visibility = Both)"

definition shouldLog :: "AppError \<Rightarrow> bool" where
  "shouldLog this =
     (let visibility = getVisibility this in visibility = Log \<or> visibility = Both)"

text \<open>
  The object \<open>toJSON\<close> returns: five fields always, \<open>cause\<close> and \<open>stack\<close> only when
  assigned (\<open>None\<close> is an absent property).
\<close>

record ErrorJSON =
  json_code :: ErrorCode
  json_message :: string
  json_type :: ErrorType
  json_surface :: Surface
  json_visibility :: ErrorVisibility
  json_cause :: "JSValue option"
  json_stack :: "string option"

definition toJSON :: "AppError \<Rightarrow> ErrorJSON" where
  "toJSON this =
     (let json = \<lparr> json_code = code this, json_message = message this,
                   json_type = etype this, json_surface = surface this,
                   json_visibility = getVisibility this,
                   json_cause = None, json_stack = None \<rparr>;
          json = (if truthy (cause this) then json\<lparr>json_cause := Some (cause this)\<rparr> else json);
          json = (if truthyString (stack this) then json\<lparr>json_stack := stack this\<rparr> else json)
      in json)"

text \<open>The six subclasses: each fixes its code and passes the cause on.\<close>

definition WebGPUUnavailableError :: "JSValue \<Rightarrow> string option \<Rightarrow> AppError" where
  "WebGPUUnavailableError c stk =
     AppError_new ''WebGPUUnavailableError'' (Unavailable, Webgpu) c stk"

definition CanvasNotFoundError :: "JSValue \<Rightarrow> string option \<Rightarrow> AppError" where
  "CanvasNotFoundError c stk = AppError_new ''CanvasNotFoundError'' (NotFound, Canvas) c stk"

definition AdapterNotFoundError :: "JSValue \<Rightarrow> string option \<Rightarrow> AppError" where
  "AdapterNotFoundError c stk = AppError_new ''AdapterNotFoundError'' (NotFound, Adapter) c stk"

definition DeviceRequestFailedError :: "JSValue \<Rightarrow> string option \<Rightarrow> AppError" where
  "DeviceRequestFailedError c stk =
     AppError_new ''DeviceRequestFailedError'' (Failed, Device) c stk"

definition ContextInitFailedError :: "JSValue \<Rightarrow> string option \<Rightarrow> AppError" where
  "ContextInitFailedError c stk =
     AppError_new ''ContextInitFailedError'' (InitializationFailed, Context) c stk"

definition PipelineCreationFailedError :: "JSValue \<Rightarrow> string option \<Rightarrow> AppError" where
  "PipelineCreationFailedError c stk =
     AppError_new ''PipelineCreationFailedError'' (Failed, Pipeline) c stk"

section \<open>Initialization and the render loop (src/main.ts)\<close>

text \<open>
  The program talks to its host through the calls below. A run is recorded as the list
  of events it produces, in order: each call to the logger, and each host call with the
  way it ended, and each exception that reaches the host uncaught. A logger event is
  the call of \<open>logger.debug\<close> or \<open>logger.error\<close>;
  the logger writes it to the console in a development build and drops it otherwise.
  The context maps passed to \<open>logger.debug\<close> (canvas size, format) are host data and
  are left out of the events; the \<open>phase\<close> passed to \<open>logger.error\<close> is kept.
\<close>

datatype HostCall =
    GetElementById
  | GpuInNavigator
  | RequestAdapter
  | RequestDevice
  | GetContext
  | GetPreferredCanvasFormat
  | Configure
  | GetCurrentTexture
  | CreateView
  | CreateCommandEncoder
  | BeginRenderPass
  | PassEnd
  | Finish
  | Submit
  | RequestAnimationFrame

text \<open>
  What a \<open>catch\<close> clause can receive: an \<open>AppError\<close> thrown by \<open>main\<close>, or any value
  a host call threw. Both handlers pass \<open>err instanceof Error ? err : new
  Error(String(err))\<close> to \<open>logger.error\<close>.
\<close>

datatype Thrown = ThrownAppError AppError | ThrownValue JSValue

fun instanceofError :: "Thrown \<Rightarrow> bool" where
  "instanceofError (ThrownAppError _) = True"
| "instanceofError (ThrownValue (JErrorObject _ _)) = True"
| "instanceofError (ThrownValue _) = False"

text \<open>
  \<open>String(v)\<close>: \<open>Some x\<close> when the conversion throws \<open>x\<close>. Primitives, symbols
  included, and ordinary objects convert.
\<close>

fun stringConversionThrows :: "JSValue \<Rightarrow> JSValue option" where
  "stringConversionThrows (JUnprintableObject _ x) = Some x"
| "stringConversionThrows _ = None"

datatype LoggedError = Passed Thrown | NewErrorOfString Thrown

text \<open>
  The argument expression of \<open>logger.error\<close>: \<open>Inr\<close> of the error passed, or \<open>Inl\<close>
  of what the expression throws.
\<close>

fun toLoggedError :: "Thrown \<Rightarrow> JSValue + LoggedError" where
  "toLoggedError (ThrownAppError e) = Inr (Passed (ThrownAppError e))"
| "toLoggedError (ThrownValue v) =
     (if instanceofError (ThrownValue v) then Inr (Passed (ThrownValue v))
      else (case stringConversionThrows v of
              Some x \<Rightarrow> Inl x
            | None \<Rightarrow> Inr (NewErrorOfString (ThrownValue v))))"

datatype Event =
    LoggerDebug string
  | LoggerError LoggedError string
  | Returned HostCall
  | Threw HostCall JSValue
  | Uncaught JSValue

text \<open>
  What the host answers during initialization, as far as \<open>main\<close> looks at it: whether
  \<open>getElementById\<close>, \<open>requestAdapter\<close> and \<open>getContext\<close> return an object or null,
  whether \<open>navigator\<close> has a \<open>gpu\<close> member, and whether \<open>requestDevice\<close> rejects
  (\<open>Some x\<close>, with the rejection value) or resolves. \<open>engine_stack\<close> is the stack the
  engine attaches to an error made during the run.
\<close>

record Host =
  canvas_found :: bool
  gpu_in_navigator :: bool
  adapter_found :: bool
  requestDevice_rejects :: "JSValue option"
  context_found :: bool
  engine_stack :: "string option"

text \<open>
  \<open>main\<close>: the events up to its return or throw, and \<open>Inl\<close> of the error thrown or
  \<open>Inr ()\<close>. The statements are taken in the source's order; the \<open>try\<close> around
  \<open>requestDevice\<close> rethrows the rejection wrapped as the cause of a
  \<open>DeviceRequestFailedError\<close>.
\<close>

definition main :: "Host \<Rightarrow> Event list \<times> (AppError + unit)" where
  "main h =
     (let tr = [LoggerDebug ''Starting WebGPU initialization'', Returned GetElementById] in
      if \<not> canvas_found h then (tr, Inl (CanvasNotFoundError JUndefined (engine_stack h)))
      else
      let tr = tr @ [LoggerDebug ''Canvas found'', Returned GpuInNavigator] in
      if \<not> gpu_in_navigator h
      then (tr, Inl (WebGPUUnavailableError JUndefined (engine_stack h)))
      else
      let tr = tr @ [LoggerDebug ''WebGPU is available in navigator'',
                     LoggerDebug ''Requesting GPU adapter'', Returned RequestAdapter] in
      if \<not> adapter_found h then (tr, Inl (AdapterNotFoundError JUndefined (engine_stack h)))
      else
      let tr = tr @ [LoggerDebug ''GPU adapter obtained'', LoggerDebug ''Requesting GPU device''] in
      case requestDevice_rejects h of
        Some error \<Rightarrow>
          (tr @ [Threw RequestDevice error],
           Inl (DeviceRequestFailedError error (engine_stack h)))
      | None \<Rightarrow>
      let tr = tr @ [Returned RequestDevice, LoggerDebug ''GPU device obtained'',
                     LoggerDebug ''Getting WebGPU canvas context'', Returned GetContext] in
      if \<not> context_found h then (tr, Inl (ContextInitFailedError JUndefined (engine_stack h)))
      else
        (tr @ [Returned GetPreferredCanvasFormat, LoggerDebug ''Configuring canvas context'',
               Returned Configure, LoggerDebug ''Canvas context configured successfully'',
               LoggerDebug ''Starting render loop'', Returned RequestAnimationFrame,
               LoggerDebug ''Initialization complete, render loop started''],
         Inr ()))"

text \<open>
  During one frame the host may make any of the calls throw: \<open>g c = Some x\<close> says
  that call \<open>c\<close> throws \<open>x\<close> in this frame. \<open>try_calls\<close> runs the statements of a
  \<open>try\<close> block in order and stops at the first that throws.
\<close>

type_synonym FrameHost = "HostCall \<Rightarrow> JSValue option"

fun try_calls :: "FrameHost \<Rightarrow> HostCall list \<Rightarrow> Event list \<times> JSValue option" where
  "try_calls g [] = ([], None)"
| "try_calls g (c # cs) =
     (case g c of
        Some error \<Rightarrow> ([Threw c error], Some error)
      | None \<Rightarrow> (case try_calls g cs of (tr, r) \<Rightarrow> (Returned c # tr, r)))"

text \<open>
  The body of \<open>frame\<close>'s \<open>try\<close> block: acquire the texture and its view, record the
  pass, end it, finish, submit, and, as the last statement inside the block,
  \<open>requestAnimationFrame(frame)\<close>.
\<close>

definition frame_try_block :: "HostCall list" where
  "frame_try_block =
     [GetCurrentTexture, CreateView, CreateCommandEncoder, BeginRenderPass, PassEnd,
      Finish, Submit, RequestAnimationFrame]"

text \<open>
  \<open>frame\<close>: the \<open>try\<close> block, and in the \<open>catch\<close> clause one call of \<open>logger.error\<close>
  tagged \<open>render_frame\<close> and nothing else. The result is the events and, when
  evaluating the logger's argument throws, the exception that leaves \<open>frame\<close>.
\<close>

definition frame :: "FrameHost \<Rightarrow> Event list \<times> JSValue option" where
  "frame g =
     (case try_calls g frame_try_block of
        (tr, None) \<Rightarrow> (tr, None)
      | (tr, Some error) \<Rightarrow>
          (case toLoggedError (ThrownValue error) of
             Inr logged \<Rightarrow> (tr @ [LoggerError logged ''render_frame''], None)
           | Inl x \<Rightarrow> (tr, Some x)))"

text \<open>
  The host's frame scheduler: at each animation frame it invokes the callback if one is
  registered, and a callback is registered for the next frame exactly when the
  invocation called \<open>requestAnimationFrame\<close>. The list gives the host's behaviour in
  the successive frames; the run ends with the list (the page is closed). An exception
  that leaves the callback reaches the host.
\<close>

definition registers_callback :: "Event list \<Rightarrow> bool" where
  "registers_callback tr = (Returned RequestAnimationFrame \<in> set tr)"

fun uncaught :: "JSValue option \<Rightarrow> Event list" where
  "uncaught None = []"
| "uncaught (Some x) = [Uncaught x]"

fun render_loop :: "bool \<Rightarrow> FrameHost list \<Rightarrow> Event list" where
  "render_loop registered [] = []"
| "render_loop registered (g # gs) =
     (if registered
      then (case frame g of
              (tr, thrown) \<Rightarrow> tr @ uncaught thrown @ render_loop (registers_callback tr) gs)
      else [])"

text \<open>
  The module: \<open>main()\<close> with its \<open>catch\<close> handler, which reports a rejection to
  \<open>logger.error\<close> tagged \<open>main_initialization\<close>, followed by the frames the scheduler
  runs.
\<close>

definition program :: "Host \<Rightarrow> FrameHost list \<Rightarrow> Event list" where
  "program h gs =
     (case main h of
        (tr, Inl err) \<Rightarrow>
          (case toLoggedError (ThrownAppError err) of
             Inr logged \<Rightarrow> tr @ [LoggerError logged ''main_initialization'']
           | Inl x \<Rightarrow> tr @ [Uncaught x])
      | (tr, Inr _) \<Rightarrow> tr @ render_loop (registers_callback tr) gs)"

text \<open>The host calls of a run, in order, whether they returned or threw.\<close>

fun calls :: "Event list \<Rightarrow> HostCall list" where
  "calls [] = []"
| "calls (Returned c # tr) = c # calls tr"
| "calls (Threw c _ # tr) = c # calls tr"
| "calls (_ # tr) = calls tr"

text \<open>The five acquisition steps, by the host call each makes, and what follows them.\<close>

definition init_steps :: "HostCall list" where
  "init_steps = [GetElementById, GpuInNavigator, RequestAdapter, RequestDevice, GetContext]"

definition init_calls :: "HostCall list" where
  "init_calls = init_steps @ [GetPreferredCanvasFormat, Configure, RequestAnimationFrame]"

text \<open>
  Whether a step fails on a host, and the first of the five steps that does.
\<close>

fun step_fails :: "Host \<Rightarrow> HostCall \<Rightarrow> bool" where
  "step_fails h GetElementById = (\<not> canvas_found h)"
| "step_fails h GpuInNavigator = (\<not> gpu_in_navigator h)"
| "step_fails h RequestAdapter = (\<not> adapter_found h)"
| "step_fails h RequestDevice = (requestDevice_rejects h \<noteq> None)"
| "step_fails h GetContext = (\<not> context_found h)"
| "step_fails h _ = False"

definition first_failure :: "Host \<Rightarrow> HostCall option" where
  "first_failure h = find (step_fails h) init_steps"

text \<open>The steps up to and including step \<open>c\<close>.\<close>

definition steps_through :: "HostCall \<Rightarrow> HostCall list" where
  "steps_through c = takeWhile (\<lambda>d. d \<noteq> c) init_steps @ [c]"

subsection \<open>Error objects in the heap\<close>

text \<open>
  \<open>getVisibility\<close> and \<open>toJSON\<close> above take the receiver by value and read the table
  as the module defines it. Here the state they run in is explicit: the module-level
  object \<open>visibilityBySurface\<close>, whose properties are assignable, the error objects
  by reference, whose fields are assignable too, and the next free reference. A method
  takes the reference of its receiver and the heap and returns its result with the heap
  it leaves; \<open>None\<close> is a call on a reference that holds no error object.
\<close>

record Heap =
  visibility_table :: "Surface \<Rightarrow> ErrorVisibility"
  errors :: "nat \<Rightarrow> AppError option"
  next_ref :: nat

text \<open>The heap once the module \<open>errors.ts\<close> is loaded.\<close>

definition initial_heap :: Heap where
  "initial_heap =
     \<lparr> visibility_table = visibilityBySurface, errors = (\<lambda>r. None), next_ref = 0 \<rparr>"

text \<open>\<open>new\<close>: the constructor's object is stored under a fresh reference.\<close>

definition new_AppError ::
  "string \<Rightarrow> ErrorCode \<Rightarrow> JSValue \<Rightarrow> string option \<Rightarrow> Heap \<Rightarrow> nat \<times> Heap" where
  "new_AppError className errorCode c stk H =
     (next_ref H,
      H\<lparr> errors := (errors H)(next_ref H := Some (AppError_new className errorCode c stk)),
         next_ref := Suc (next_ref H) \<rparr>)"

definition getVisibility_heap :: "nat \<Rightarrow> Heap \<Rightarrow> (ErrorVisibility \<times> Heap) option" where
  "getVisibility_heap r H =
     (case errors H r of
        None \<Rightarrow> None
      | Some this \<Rightarrow> Some (visibility_table H (surface this), H))"

text \<open>
  \<open>toJSON\<close>: the object literal reads four fields and calls \<open>getVisibility\<close>; the two
  \<open>if\<close> statements read \<open>cause\<close> and \<open>stack\<close> in the heap that call left. The
  only assignments are to the new object \<open>json\<close>.
\<close>

definition toJSON_heap :: "nat \<Rightarrow> Heap \<Rightarrow> (ErrorJSON \<times> Heap) option" where
  "toJSON_heap r H =
     (case errors H r of
        None \<Rightarrow> None
      | Some this \<Rightarrow>
          (case getVisibility_heap r H of
             None \<Rightarrow> None
           | Some (visibility, H1) \<Rightarrow>
               (case errors H1 r of
                  None \<Rightarrow> None
                | Some this1 \<Rightarrow>
                    (let json = \<lparr> json_code = code this, json_message = message this,
                                   json_type = etype this, json_surface = surface this,
                                   json_visibility = visibility,
                                   json_cause = None, json_stack = None \<rparr>;
                         json = (if truthy (cause this1)
                                 then json\<lparr>json_cause := Some (cause this1)\<rparr> else json);
                         json = (if truthyString (stack this1)
                                 then json\<lparr>json_stack := stack this1\<rparr> else json)
                     in Some (json, H1)))))"

text \<open>Two calls of \<open>toJSON\<close> on one object, the second in the heap the first leaves.\<close>

definition toJSON_twice :: "nat \<Rightarrow> Heap \<Rightarrow> (ErrorJSON \<times> ErrorJSON \<times> Heap) option" where
  "toJSON_twice r H =
     (case toJSON_heap r H of
        None \<Rightarrow> None
      | Some (first, H1) \<Rightarrow>
          (case toJSON_heap r H1 of
             None \<Rightarrow> None
           | Some (second, H2) \<Rightarrow> Some (first, second, H2)))"

subsection \<open>The specification's state machine\<close>

text \<open>
  The specification describes initialization as a machine over the states below, with
  one transition per step and each step failing with one designated code. These
  definitions follow the specification's words; they are compared with \<open>main\<close> in the
  theorems.
\<close>

datatype PipelineState =
    Idle
  | TargetResolved
  | CapabilityChecked
  | AdapterAcquired
  | DeviceAcquired
  | ContextConfigured
  | Running
  | FailedState ErrorCode

fun spec_failure_code :: "HostCall \<Rightarrow> ErrorCode option" where
  "spec_failure_code GetElementById = Some (NotFound, Canvas)"
| "spec_failure_code GpuInNavigator = Some (Unavailable, Webgpu)"
| "spec_failure_code RequestAdapter = Some (NotFound, Adapter)"
| "spec_failure_code RequestDevice = Some (Failed, Device)"
| "spec_failure_code GetContext = Some (InitializationFailed, Context)"
| "spec_failure_code _ = None"

fun spec_step :: "Host \<Rightarrow> PipelineState \<Rightarrow> PipelineState" where
  "spec_step h Idle =
     (if canvas_found h then TargetResolved else FailedState (NotFound, Canvas))"
| "spec_step h TargetResolved =
     (if gpu_in_navigator h then CapabilityChecked else FailedState (Unavailable, Webgpu))"
| "spec_step h CapabilityChecked =
     (if adapter_found h then AdapterAcquired else FailedState (NotFound, Adapter))"
| "spec_step h AdapterAcquired =
     (case requestDevice_rejects h of
        None \<Rightarrow> DeviceAcquired
      | Some _ \<Rightarrow> FailedState (Failed, Device))"
| "spec_step h DeviceAcquired =
     (if context_found h then ContextConfigured
      else FailedState (InitializationFailed, Context))"
| "spec_step h ContextConfigured = Running"
| "spec_step h Running = Running"
| "spec_step h (FailedState c) = FailedState c"

fun spec_run :: "Host \<Rightarrow> nat \<Rightarrow> PipelineState" where
  "spec_run h 0 = Idle"
| "spec_run h (Suc n) = spec_step h (spec_run h n)"

fun rank :: "PipelineState \<Rightarrow> nat" where
  "rank Idle = 0"
| "rank TargetResolved = 1"
| "rank CapabilityChecked = 2"
| "rank AdapterAcquired = 3"
| "rank DeviceAcquired = 4"
| "rank ContextConfigured = 5"
| "rank Running = 6"
| "rank (FailedState _) = 7"

text \<open>The state in which a run of \<open>main\<close> ends.\<close>

fun final_state :: "Event list \<times> (AppError + unit) \<Rightarrow> PipelineState" where
  "final_state (tr, Inl err) = FailedState (code err)"
| "final_state (tr, Inr _) = Running"

section \<open>Facts about the taxonomy\<close>

lemma split_codeString:
  "split_colon (codeString (t, s)) = [typeString t, surfaceString s]"
  by (cases t; cases s; simp)

lemma codeString_inj: "codeString c = codeString d \<longleftrightarrow> c = d"
  by (cases c; cases d; cases "fst c"; cases "snd c"; cases "fst d"; cases "snd d"; simp)


lemma getMessageByErrorCode_defined:
  "getMessageByErrorCode (codeString (Unavailable, Webgpu)) =
     ''WebGPU is not available in this environment.''"
  "getMessageByErrorCode (codeString (NotFound, Canvas)) = ''Canvas element not found.''"
  "getMessageByErrorCode (codeString (NotFound, Adapter)) = ''No suitable GPU adapter found.''"
  "getMessageByErrorCode (codeString (Failed, Device)) = ''Failed to request a GPU device.''"
  "getMessageByErrorCode (codeString (InitializationFailed, Context)) =
     ''Failed to initialize WebGPU canvas context.''"
  "getMessageByErrorCode (codeString (Failed, Pipeline)) = ''Failed to create render pipeline.''"
  by (simp_all add: getMessageByErrorCode_def)

lemma getMessageByErrorCode_other:
  assumes "x \<notin> set (map codeString definedCodes)"
  shows "getMessageByErrorCode x = fallbackMessage"
  using assms by (simp add: getMessageByErrorCode_def definedCodes_def)

lemma getMessageByErrorCode_nonempty: "getMessageByErrorCode x \<noteq> []"
  by (simp add: getMessageByErrorCode_def fallbackMessage_def)

lemma codeString_defined_iff:
  "codeString c \<in> set (map codeString definedCodes) \<longleftrightarrow> c \<in> set definedCodes"
proof
  assume "codeString c \<in> set (map codeString definedCodes)"
  then obtain d where "d \<in> set definedCodes" "codeString c = codeString d"
    by (auto simp del: codeString.simps)
  then show "c \<in> set definedCodes"
    by (simp add: codeString_inj del: codeString.simps)
next
  assume "c \<in> set definedCodes"
  then show "codeString c \<in> set (map codeString definedCodes)"
    by (simp del: codeString.simps)
qed

lemma getVisibility_new [simp]:
  "getVisibility (AppError_new n (k, s) c st) = visibilityBySurface s"
  by (simp add: getVisibility_def AppError_new_def)

lemma toJSON_cause: "json_cause (toJSON e) = (if truthy (cause e) then Some (cause e) else None)"
  by (simp add: toJSON_def Let_def)

lemma toJSON_stack:
  "json_stack (toJSON e) = (if truthyString (stack e) then stack e else None)"
  by (simp add: toJSON_def Let_def)

lemma toJSON_new:
  "toJSON (AppError_new n (k, s) c st) =
     \<lparr> json_code = (k, s), json_message = getMessageByErrorCode (codeString (k, s)),
       json_type = k, json_surface = s, json_visibility = visibilityBySurface s,
       json_cause = (if truthy c then Some c else None),
       json_stack = (if truthyString st then st else None) \<rparr>"
  by (simp add: toJSON_def AppError_new_def getVisibility_def Let_def)

section \<open>Message lookup\<close>

text \<open>
  Claim C2. The message lookup returns a message for every code. Each of the six defined
  codes yields its own table entry; every other string, and so each of the eighteen
  other values of \<open>ErrorCode\<close>, yields the fallback "Something went wrong. Please try
  again later."; the message is never empty, and it is the message a constructed error
  carries.
\<close>

theorem getMessageByErrorCode_total:
  "getMessageByErrorCode (codeString (Unavailable, Webgpu)) =
     ''WebGPU is not available in this environment.''
   \<and> getMessageByErrorCode (codeString (NotFound, Canvas)) = ''Canvas element not found.''
   \<and> getMessageByErrorCode (codeString (NotFound, Adapter)) = ''No suitable GPU adapter found.''
   \<and> getMessageByErrorCode (codeString (Failed, Device)) = ''Failed to request a GPU device.''
   \<and> getMessageByErrorCode (codeString (InitializationFailed, Context)) =
       ''Failed to initialize WebGPU canvas context.''
   \<and> getMessageByErrorCode (codeString (Failed, Pipeline)) = ''Failed to create render pipeline.''
   \<and> (c \<notin> set definedCodes \<longrightarrow> getMessageByErrorCode (codeString c) = fallbackMessage)
   \<and> (x \<notin> set (map codeString definedCodes) \<longrightarrow> getMessageByErrorCode x = fallbackMessage)
   \<and> fallbackMessage = ''Something went wrong. Please try again later.''
   \<and> getMessageByErrorCode x \<noteq> []
   \<and> message (AppError_new n c v st) = getMessageByErrorCode (codeString c)"
proof -
  have other: "c \<notin> set definedCodes \<longrightarrow> getMessageByErrorCode (codeString c) = fallbackMessage"
    using getMessageByErrorCode_other [of "codeString c"] codeString_defined_iff [of c]
    by blast
  have built: "message (AppError_new n c v st) = getMessageByErrorCode (codeString c)"
    by (cases c) (simp add: AppError_new_def)
  show ?thesis
    using other built getMessageByErrorCode_other [of x] getMessageByErrorCode_nonempty [of x]
    by (simp add: getMessageByErrorCode_defined fallbackMessage_def del: codeString.simps)
qed

theorem getMessageByErrorCode_total_witness:
  "(Failed, Webgpu) \<notin> set definedCodes
   \<and> getMessageByErrorCode (codeString (Failed, Webgpu)) = fallbackMessage
   \<and> ''timeout:network'' \<notin> set (map codeString definedCodes)
   \<and> getMessageByErrorCode ''timeout:network'' = fallbackMessage"
  using getMessageByErrorCode_total [of "(Failed, Webgpu)" "''timeout:network''"]
  by (simp add: definedCodes_def)

section \<open>Visibility\<close>

text \<open>
  Claim C3. The visibility of an error depends on its surface alone: two errors built
  with the same surface have the same visibility whatever their error types, causes,
  class names and stacks are, and that visibility is the entry of the fixed table
  (webgpu, adapter, context and canvas are shown to the user; device and pipeline are
  logged).
\<close>

theorem visibility_depends_on_surface_only:
  "getVisibility (AppError_new n1 (k1, s) c1 st1) = getVisibility (AppError_new n2 (k2, s) c2 st2)
   \<and> getVisibility (AppError_new n1 (k1, s) c1 st1) = visibilityBySurface s
   \<and> visibilityBySurface Webgpu = User
   \<and> visibilityBySurface Adapter = User
   \<and> visibilityBySurface Device = Log
   \<and> visibilityBySurface Context = User
   \<and> visibilityBySurface Canvas = User
   \<and> visibilityBySurface Pipeline = Log"
  by simp

text \<open>
  Claim C4. For every error object, \<open>shouldShowToUser\<close> holds exactly when its visibility
  is user or both, and \<open>shouldLog\<close> exactly when it is log or both. Over the six
  surfaces: an error is shown to the user exactly on webgpu, adapter, context and canvas,
  and logged exactly on device and pipeline.
\<close>

theorem shouldShowToUser_shouldLog_iff:
  "shouldShowToUser e = (getVisibility e \<in> {User, Both})
   \<and> shouldLog e = (getVisibility e \<in> {Log, Both})
   \<and> shouldShowToUser (AppError_new n (k, s) c st) = (s \<in> {Webgpu, Adapter, Context, Canvas})
   \<and> shouldLog (AppError_new n (k, s) c st) = (s \<in> {Device, Pipeline})"
  by (cases s) (auto simp: shouldShowToUser_def shouldLog_def Let_def)

lemma getVisibility_heap_reads:
  assumes "errors H r = Some e"
  shows "getVisibility_heap r H = Some (visibility_table H (surface e), H)"
  using assms by (simp add: getVisibility_heap_def)

lemma toJSON_heap_reads:
  assumes "errors H r = Some e"
  shows "toJSON_heap r H =
    Some (\<lparr> json_code = code e, json_message = message e, json_type = etype e,
            json_surface = surface e, json_visibility = visibility_table H (surface e),
            json_cause = (if truthy (cause e) then Some (cause e) else None),
            json_stack = (if truthyString (stack e) then stack e else None) \<rparr>, H)"
  using assms by (simp add: toJSON_heap_def getVisibility_heap_reads Let_def)

lemma toJSON_heap_pure:
  assumes "errors H r = Some e" "visibility_table H = visibilityBySurface"
  shows "toJSON_heap r H = Some (toJSON e, H)"
  using assms by (simp add: toJSON_heap_reads toJSON_def getVisibility_def Let_def)

lemma new_AppError_stored:
  "errors (snd (new_AppError n ec c st H)) (fst (new_AppError n ec c st H)) =
     Some (AppError_new n ec c st)"
  "visibility_table (snd (new_AppError n ec c st H)) = visibility_table H"
  by (simp_all add: new_AppError_def)

section \<open>Serialization\<close>

text \<open>
  Claim C9. Let \<open>r\<close> refer to an error object \<open>e\<close> in a heap \<open>H\<close>. Serializing it
  returns and leaves the heap as it was, so nothing is updated; serializing it twice in
  a row yields the same output both times. The output is made of the object's code,
  message, type and surface, the entry of the visibility table for its surface, and its
  cause and stack when truthy: it is the same in every heap that holds the same object
  and the same table, so nothing else is consulted. With the table as the module
  defines it, the output is that of \<open>toJSON\<close> on the object. For an object fresh from
  the constructor the message is the one looked up for its code, and two serializations
  again agree and leave the heap unchanged.
\<close>

theorem toJSON_deterministic:
  assumes "errors H r = Some e"
  shows "toJSON_heap r H =
      Some (\<lparr> json_code = code e, json_message = message e, json_type = etype e,
              json_surface = surface e, json_visibility = visibility_table H (surface e),
              json_cause = (if truthy (cause e) then Some (cause e) else None),
              json_stack = (if truthyString (stack e) then stack e else None) \<rparr>, H)
    \<and> (\<exists>j. toJSON_heap r H = Some (j, H) \<and> toJSON_twice r H = Some (j, j, H))
    \<and> (errors H' r = Some e \<and> visibility_table H' = visibility_table H \<longrightarrow>
         map_option fst (toJSON_heap r H') = map_option fst (toJSON_heap r H))
    \<and> (visibility_table H = visibilityBySurface \<longrightarrow> toJSON_heap r H = Some (toJSON e, H))
    \<and> toJSON_twice (fst (new_AppError n (k, s) c st H)) (snd (new_AppError n (k, s) c st H)) =
        Some (\<lparr> json_code = (k, s), json_message = getMessageByErrorCode (codeString (k, s)),
                json_type = k, json_surface = s, json_visibility = visibility_table H s,
                json_cause = (if truthy c then Some c else None),
                json_stack = (if truthyString st then st else None) \<rparr>,
              \<lparr> json_code = (k, s), json_message = getMessageByErrorCode (codeString (k, s)),
                json_type = k, json_surface = s, json_visibility = visibility_table H s,
                json_cause = (if truthy c then Some c else None),
                json_stack = (if truthyString st then st else None) \<rparr>,
              snd (new_AppError n (k, s) c st H))"
proof -
  have twice: "\<exists>j. toJSON_heap r H = Some (j, H) \<and> toJSON_twice r H = Some (j, j, H)"
    by (simp add: toJSON_twice_def toJSON_heap_reads [OF assms])
  have same: "errors H' r = Some e \<and> visibility_table H' = visibility_table H \<longrightarrow>
      map_option fst (toJSON_heap r H') = map_option fst (toJSON_heap r H)"
    by (simp add: toJSON_heap_reads [OF assms] toJSON_heap_reads [of H' r e])
  have pure: "visibility_table H = visibilityBySurface \<longrightarrow>
      toJSON_heap r H = Some (toJSON e, H)"
    using toJSON_heap_pure [OF assms] by blast
  have fresh: "toJSON_twice (fst (new_AppError n (k, s) c st H))
        (snd (new_AppError n (k, s) c st H)) =
        Some (\<lparr> json_code = (k, s), json_message = getMessageByErrorCode (codeString (k, s)),
                json_type = k, json_surface = s, json_visibility = visibility_table H s,
                json_cause = (if truthy c then Some c else None),
                json_stack = (if truthyString st then st else None) \<rparr>,
              \<lparr> json_code = (k, s), json_message = getMessageByErrorCode (codeString (k, s)),
                json_type = k, json_surface = s, json_visibility = visibility_table H s,
                json_cause = (if truthy c then Some c else None),
                json_stack = (if truthyString st then st else None) \<rparr>,
              snd (new_AppError n (k, s) c st H))"
    by (simp add: toJSON_twice_def toJSON_heap_reads [OF new_AppError_stored(1)]
        new_AppError_stored(2) AppError_new_def del: codeString.simps)
  from toJSON_heap_reads [OF assms] twice same pure fresh show ?thesis
    by blast
qed

theorem toJSON_deterministic_witness:
  "errors (snd (new_AppError ''DeviceRequestFailedError'' (Failed, Device)
             (JString ''adapter consumed'') (Some ''Error at main'') initial_heap)) 0 =
     Some (DeviceRequestFailedError (JString ''adapter consumed'') (Some ''Error at main''))
   \<and> toJSON_twice 0 (snd (new_AppError ''DeviceRequestFailedError'' (Failed, Device)
             (JString ''adapter consumed'') (Some ''Error at main'') initial_heap)) =
     Some (\<lparr> json_code = (Failed, Device), json_message = ''Failed to request a GPU device.'',
             json_type = Failed, json_surface = Device, json_visibility = Log,
             json_cause = Some (JString ''adapter consumed''),
             json_stack = Some ''Error at main'' \<rparr>,
           \<lparr> json_code = (Failed, Device), json_message = ''Failed to request a GPU device.'',
             json_type = Failed, json_surface = Device, json_visibility = Log,
             json_cause = Some (JString ''adapter consumed''),
             json_stack = Some ''Error at main'' \<rparr>,
           snd (new_AppError ''DeviceRequestFailedError'' (Failed, Device)
             (JString ''adapter consumed'') (Some ''Error at main'') initial_heap))
   \<and> toJSON_heap 0 (snd (new_AppError ''DeviceRequestFailedError'' (Failed, Device)
             (JString ''adapter consumed'') (Some ''Error at main'') initial_heap)) =
     Some (toJSON (DeviceRequestFailedError (JString ''adapter consumed'')
                     (Some ''Error at main'')),
           snd (new_AppError ''DeviceRequestFailedError'' (Failed, Device)
             (JString ''adapter consumed'') (Some ''Error at main'') initial_heap))"
proof -
  let ?H = "snd (new_AppError ''DeviceRequestFailedError'' (Failed, Device)
             (JString ''adapter consumed'') (Some ''Error at main'') initial_heap)"
  let ?e = "DeviceRequestFailedError (JString ''adapter consumed'') (Some ''Error at main'')"
  have stored: "errors ?H 0 = Some ?e"
    by (simp add: new_AppError_def initial_heap_def DeviceRequestFailedError_def)
  have table: "visibility_table ?H = visibilityBySurface"
    by (simp add: new_AppError_def initial_heap_def)
  note det = toJSON_deterministic [OF stored]
  from det obtain j where
    j: "toJSON_heap 0 ?H = Some (j, ?H)" "toJSON_twice 0 ?H = Some (j, j, ?H)"
    by blast
  from det table have pure: "toJSON_heap 0 ?H = Some (toJSON ?e, ?H)"
    by blast
  with j(1) have "j = toJSON ?e" by simp
  then have "j = \<lparr> json_code = (Failed, Device),
      json_message = ''Failed to request a GPU device.'',
      json_type = Failed, json_surface = Device, json_visibility = Log,
      json_cause = Some (JString ''adapter consumed''),
      json_stack = Some ''Error at main'' \<rparr>"
    by (simp add: DeviceRequestFailedError_def toJSON_new getMessageByErrorCode_def)
  with j(2) stored pure show ?thesis by simp
qed

text \<open>
  Claim C10. The serialized output has a \<open>cause\<close> field exactly when the stored cause is
  truthy, and then it is the stored cause. An error built with the cause 0, the empty
  string, false or null keeps that cause in its own field and serializes without a
  \<open>cause\<close> field. The \<open>stack\<close> field is filtered the same way: an undefined or empty
  stack is left out.
\<close>

theorem toJSON_drops_falsy_cause:
  "(json_cause (toJSON e) \<noteq> None) = truthy (cause e)
   \<and> json_cause (toJSON e) = (if truthy (cause e) then Some (cause e) else None)
   \<and> cause (AppError_new n ec (JNumber 0) st) = JNumber 0
   \<and> json_cause (toJSON (AppError_new n ec (JNumber 0) st)) = None
   \<and> cause (AppError_new n ec (JString []) st) = JString []
   \<and> json_cause (toJSON (AppError_new n ec (JString []) st)) = None
   \<and> cause (AppError_new n ec (JBool False) st) = JBool False
   \<and> json_cause (toJSON (AppError_new n ec (JBool False) st)) = None
   \<and> cause (AppError_new n ec JNull st) = JNull
   \<and> json_cause (toJSON (AppError_new n ec JNull st)) = None
   \<and> (json_stack (toJSON e) \<noteq> None) = truthyString (stack e)
   \<and> json_stack (toJSON e) = (if truthyString (stack e) then stack e else None)
   \<and> json_stack (toJSON (AppError_new n ec c (Some []))) = None
   \<and> json_stack (toJSON (AppError_new n ec c None)) = None"
proof -
  have fields: "cause (AppError_new n ec v st) = v" "stack (AppError_new n ec v st) = st"
    for v st
    by (cases ec; simp add: AppError_new_def)+
  have stack_shown: "(json_stack (toJSON e) \<noteq> None) = truthyString (stack e)"
    by (cases "stack e") (simp_all add: toJSON_stack)
  show ?thesis
    using stack_shown by (simp add: toJSON_cause toJSON_stack fields)
qed

section \<open>Facts about initialization\<close>

lemmas error_classes =
  CanvasNotFoundError_def WebGPUUnavailableError_def AdapterNotFoundError_def
  DeviceRequestFailedError_def ContextInitFailedError_def AppError_new_def

lemma main_no_canvas:
  assumes "\<not> canvas_found h"
  shows "main h =
    ([LoggerDebug ''Starting WebGPU initialization'', Returned GetElementById],
     Inl (CanvasNotFoundError JUndefined (engine_stack h)))"
  using assms by (simp add: main_def)

lemma main_no_gpu:
  assumes "canvas_found h" "\<not> gpu_in_navigator h"
  shows "main h =
    ([LoggerDebug ''Starting WebGPU initialization'', Returned GetElementById,
      LoggerDebug ''Canvas found'', Returned GpuInNavigator],
     Inl (WebGPUUnavailableError JUndefined (engine_stack h)))"
  using assms by (simp add: main_def)

lemma main_no_adapter:
  assumes "canvas_found h" "gpu_in_navigator h" "\<not> adapter_found h"
  shows "main h =
    ([LoggerDebug ''Starting WebGPU initialization'', Returned GetElementById,
      LoggerDebug ''Canvas found'', Returned GpuInNavigator,
      LoggerDebug ''WebGPU is available in navigator'',
      LoggerDebug ''Requesting GPU adapter'', Returned RequestAdapter],
     Inl (AdapterNotFoundError JUndefined (engine_stack h)))"
  using assms by (simp add: main_def)

lemma main_device_rejected:
  assumes "canvas_found h" "gpu_in_navigator h" "adapter_found h"
    and "requestDevice_rejects h = Some x"
  shows "main h =
    ([LoggerDebug ''Starting WebGPU initialization'', Returned GetElementById,
      LoggerDebug ''Canvas found'', Returned GpuInNavigator,
      LoggerDebug ''WebGPU is available in navigator'',
      LoggerDebug ''Requesting GPU adapter'', Returned RequestAdapter,
      LoggerDebug ''GPU adapter obtained'', LoggerDebug ''Requesting GPU device'',
      Threw RequestDevice x],
     Inl (DeviceRequestFailedError x (engine_stack h)))"
  using assms by (simp add: main_def)

lemma main_no_context:
  assumes "canvas_found h" "gpu_in_navigator h" "adapter_found h"
    and "requestDevice_rejects h = None" "\<not> context_found h"
  shows "main h =
    ([LoggerDebug ''Starting WebGPU initialization'', Returned GetElementById,
      LoggerDebug ''Canvas found'', Returned GpuInNavigator,
      LoggerDebug ''WebGPU is available in navigator'',
      LoggerDebug ''Requesting GPU adapter'', Returned RequestAdapter,
      LoggerDebug ''GPU adapter obtained'', LoggerDebug ''Requesting GPU device'',
      Returned RequestDevice, LoggerDebug ''GPU device obtained'',
      LoggerDebug ''Getting WebGPU canvas context'', Returned GetContext],
     Inl (ContextInitFailedError JUndefined (engine_stack h)))"
  using assms by (simp add: main_def)

lemma main_success:
  assumes "canvas_found h" "gpu_in_navigator h" "adapter_found h"
    and "requestDevice_rejects h = None" "context_found h"
  shows "main h =
    ([LoggerDebug ''Starting WebGPU initialization'', Returned GetElementById,
      LoggerDebug ''Canvas found'', Returned GpuInNavigator,
      LoggerDebug ''WebGPU is available in navigator'',
      LoggerDebug ''Requesting GPU adapter'', Returned RequestAdapter,
      LoggerDebug ''GPU adapter obtained'', LoggerDebug ''Requesting GPU device'',
      Returned RequestDevice, LoggerDebug ''GPU device obtained'',
      LoggerDebug ''Getting WebGPU canvas context'', Returned GetContext,
      Returned GetPreferredCanvasFormat, LoggerDebug ''Configuring canvas context'',
      Returned Configure, LoggerDebug ''Canvas context configured successfully'',
      LoggerDebug ''Starting render loop'', Returned RequestAnimationFrame,
      LoggerDebug ''Initialization complete, render loop started''],
     Inr ())"
  using assms by (simp add: main_def)

text \<open>The six ways a run of \<open>main\<close> can go.\<close>

lemma main_outcomes:
  obtains (no_canvas) "\<not> canvas_found h"
  | (no_gpu) "canvas_found h" "\<not> gpu_in_navigator h"
  | (no_adapter) "canvas_found h" "gpu_in_navigator h" "\<not> adapter_found h"
  | (device_rejected) x where "canvas_found h" "gpu_in_navigator h" "adapter_found h"
      "requestDevice_rejects h = Some x"
  | (no_context) "canvas_found h" "gpu_in_navigator h" "adapter_found h"
      "requestDevice_rejects h = None" "\<not> context_found h"
  | (success) "canvas_found h" "gpu_in_navigator h" "adapter_found h"
      "requestDevice_rejects h = None" "context_found h"
  by (cases "requestDevice_rejects h") auto

lemma error_codes:
  "code (CanvasNotFoundError c st) = (NotFound, Canvas)"
  "code (WebGPUUnavailableError c st) = (Unavailable, Webgpu)"
  "code (AdapterNotFoundError c st) = (NotFound, Adapter)"
  "code (DeviceRequestFailedError c st) = (Failed, Device)"
  "code (ContextInitFailedError c st) = (InitializationFailed, Context)"
  by (simp_all add: error_classes)

lemma calls_prefix: "prefix (calls (fst (main h))) init_calls"
  by (cases h rule: main_outcomes)
    (simp_all add: main_no_canvas main_no_gpu main_no_adapter main_device_rejected
      main_no_context main_success init_calls_def init_steps_def)

lemma calls_distinct: "distinct (calls (fst (main h)))"
  by (cases h rule: main_outcomes)
    (simp_all add: main_no_canvas main_no_gpu main_no_adapter main_device_rejected
      main_no_context main_success)

lemma final_state_spec_run: "final_state (main h) = spec_run h 6"
  by (cases h rule: main_outcomes)
    (simp_all add: main_no_canvas main_no_gpu main_no_adapter main_device_rejected
      main_no_context main_success error_codes eval_nat_numeral)

lemma rank_mono: "rank s \<le> rank (spec_step h s)"
  by (cases s) (simp_all split: option.splits)

lemma rank_strict: "rank s < 6 \<Longrightarrow> rank s < rank (spec_step h s)"
  by (cases s) (simp_all split: option.splits)

lemma failed_absorbing: "spec_run h n = FailedState c \<Longrightarrow> spec_run h (n + k) = FailedState c"
  by (induction k) simp_all

lemma running_absorbing: "spec_run h n = Running \<Longrightarrow> spec_run h (n + k) = Running"
  by (induction k) simp_all

lemma failure_stops:
  assumes "snd (main h) = Inl err"
  shows "\<exists>n<5. calls (fst (main h)) = take (Suc n) init_steps
           \<and> spec_failure_code (init_steps ! n) = Some (code err)"
proof (cases h rule: main_outcomes)
  case no_canvas
  with assms have "calls (fst (main h)) = take (Suc 0) init_steps
      \<and> spec_failure_code (init_steps ! 0) = Some (code err)"
    by (auto simp: main_no_canvas init_steps_def error_codes)
  then show ?thesis by (intro exI [of _ 0]) simp
next
  case no_gpu
  with assms have "calls (fst (main h)) = take (Suc 1) init_steps
      \<and> spec_failure_code (init_steps ! 1) = Some (code err)"
    by (auto simp: main_no_gpu init_steps_def error_codes)
  then show ?thesis by (intro exI [of _ 1]) simp
next
  case no_adapter
  with assms have "calls (fst (main h)) = take (Suc 2) init_steps
      \<and> spec_failure_code (init_steps ! 2) = Some (code err)"
    by (auto simp: main_no_adapter init_steps_def error_codes eval_nat_numeral)
  then show ?thesis by (intro exI [of _ 2]) simp
next
  case (device_rejected x)
  with assms have "calls (fst (main h)) = take (Suc 3) init_steps
      \<and> spec_failure_code (init_steps ! 3) = Some (code err)"
    by (auto simp: main_device_rejected init_steps_def error_codes eval_nat_numeral)
  then show ?thesis by (intro exI [of _ 3]) simp
next
  case no_context
  with assms have "calls (fst (main h)) = take (Suc 4) init_steps
      \<and> spec_failure_code (init_steps ! 4) = Some (code err)"
    by (auto simp: main_no_context init_steps_def error_codes eval_nat_numeral)
  then show ?thesis by (intro exI [of _ 4]) simp
next
  case success
  with assms show ?thesis by (simp add: main_success)
qed

lemma failure_no_callback:
  assumes "snd (main h) = Inl err"
  shows "\<not> registers_callback (fst (main h))"
  using assms
  by (cases h rule: main_outcomes)
    (simp_all add: main_no_canvas main_no_gpu main_no_adapter main_device_rejected
      main_no_context main_success registers_callback_def)

lemma failure_reported:
  assumes "snd (main h) = Inl err"
  shows "program h gs =
    fst (main h) @ [LoggerError (Passed (ThrownAppError err)) ''main_initialization'']"
  using assms by (cases "main h") (simp add: program_def)


lemma try_calls_no_throw:
  assumes "\<forall>c \<in> set cs. g c = None"
  shows "try_calls g cs = (map Returned cs, None)"
  using assms by (induction cs) simp_all

lemma try_calls_first_throw:
  assumes "\<forall>c \<in> set pre. g c = None" "g c = Some x"
  shows "try_calls g (pre @ c # post) = (map Returned pre @ [Threw c x], Some x)"
  using assms by (induction pre) simp_all

text \<open>
  What holds of a failing frame: the calls after the failing one are not made; the
  failure is caught and, unless building the logger's argument throws, logged once,
  tagged \<open>render_frame\<close>.
\<close>

lemma frame_failure_logged:
  assumes "\<forall>c \<in> set pre. g c = None" "g c = Some x" "frame_try_block = pre @ c # post"
  shows "frame g =
    (case toLoggedError (ThrownValue x) of
       Inr logged \<Rightarrow>
         (map Returned pre @ [Threw c x, LoggerError logged ''render_frame''], None)
     | Inl y \<Rightarrow> (map Returned pre @ [Threw c x], Some y))"
proof -
  have "try_calls g frame_try_block = (map Returned pre @ [Threw c x], Some x)"
    unfolding assms(3) using assms(1,2) by (rule try_calls_first_throw)
  then show ?thesis by (simp add: frame_def split: sum.splits)
qed

section \<open>The render loop\<close>

text \<open>
  Claim C1. The claim is that a frame in which one of steps 1 to 4 fails still requests
  the next invocation, so that a later frame submits a command buffer. In the source
  \<open>requestAnimationFrame(frame)\<close> is the last statement inside the \<open>try\<close> block, and
  the \<open>catch\<close> clause only logs. Evaluated on a first frame whose image acquisition
  throws: the failure is caught and logged once with the tag \<open>render_frame\<close>, no
  exception leaves \<open>frame\<close>, no callback is registered, and the loop makes no further call, although the host would
  let the second frame succeed; after a successful initialization the program never
  submits a command buffer.
\<close>

theorem frame_failure_ends_render_loop:
  "frame (\<lambda>c. if c = GetCurrentTexture then Some (JErrorObject ''OperationError'' ''lost'')
               else None) =
     ([Threw GetCurrentTexture (JErrorObject ''OperationError'' ''lost''),
       LoggerError (Passed (ThrownValue (JErrorObject ''OperationError'' ''lost'')))
         ''render_frame''],
      None)
   \<and> \<not> registers_callback
         (fst (frame (\<lambda>c. if c = GetCurrentTexture
                           then Some (JErrorObject ''OperationError'' ''lost'') else None)))
   \<and> render_loop True
        [\<lambda>c. if c = GetCurrentTexture then Some (JErrorObject ''OperationError'' ''lost'')
              else None,
         \<lambda>c. None] =
       [Threw GetCurrentTexture (JErrorObject ''OperationError'' ''lost''),
        LoggerError (Passed (ThrownValue (JErrorObject ''OperationError'' ''lost'')))
          ''render_frame'']
   \<and> Returned Submit \<notin> set (program
        \<lparr> canvas_found = True, gpu_in_navigator = True, adapter_found = True,
          requestDevice_rejects = None, context_found = True, engine_stack = None \<rparr>
        [\<lambda>c. if c = GetCurrentTexture then Some (JErrorObject ''OperationError'' ''lost'')
              else None,
         \<lambda>c. None])
   \<and> Returned Submit \<in> set (program
        \<lparr> canvas_found = True, gpu_in_navigator = True, adapter_found = True,
          requestDevice_rejects = None, context_found = True, engine_stack = None \<rparr>
        [\<lambda>c. None])"
  by (simp add: frame_def frame_try_block_def registers_callback_def program_def main_def)

section \<open>Initialization\<close>

lemma first_failure_outcomes:
  "\<not> canvas_found h \<Longrightarrow> first_failure h = Some GetElementById"
  "canvas_found h \<Longrightarrow> \<not> gpu_in_navigator h \<Longrightarrow> first_failure h = Some GpuInNavigator"
  "canvas_found h \<Longrightarrow> gpu_in_navigator h \<Longrightarrow> \<not> adapter_found h
     \<Longrightarrow> first_failure h = Some RequestAdapter"
  "canvas_found h \<Longrightarrow> gpu_in_navigator h \<Longrightarrow> adapter_found h
     \<Longrightarrow> requestDevice_rejects h = Some x \<Longrightarrow> first_failure h = Some RequestDevice"
  "canvas_found h \<Longrightarrow> gpu_in_navigator h \<Longrightarrow> adapter_found h
     \<Longrightarrow> requestDevice_rejects h = None \<Longrightarrow> \<not> context_found h
     \<Longrightarrow> first_failure h = Some GetContext"
  "canvas_found h \<Longrightarrow> gpu_in_navigator h \<Longrightarrow> adapter_found h
     \<Longrightarrow> requestDevice_rejects h = None \<Longrightarrow> context_found h
     \<Longrightarrow> first_failure h = None"
  by (simp_all add: first_failure_def init_steps_def)

lemma steps_through_simps:
  "steps_through GetElementById = [GetElementById]"
  "steps_through GpuInNavigator = [GetElementById, GpuInNavigator]"
  "steps_through RequestAdapter = [GetElementById, GpuInNavigator, RequestAdapter]"
  "steps_through RequestDevice =
     [GetElementById, GpuInNavigator, RequestAdapter, RequestDevice]"
  "steps_through GetContext =
     [GetElementById, GpuInNavigator, RequestAdapter, RequestDevice, GetContext]"
  by (simp_all add: steps_through_def init_steps_def)

text \<open>\<open>main\<close> throws at the first step that fails on the host, with that step's code.\<close>

lemma throws_at_first_failure:
  assumes "first_failure h = Some c"
  shows "\<exists>err. snd (main h) = Inl err \<and> spec_failure_code c = Some (code err)
           \<and> calls (fst (main h)) = steps_through c"
proof (cases h rule: main_outcomes)
  case no_canvas
  with assms have "c = GetElementById" by (simp add: first_failure_outcomes)
  with no_canvas show ?thesis
    by (simp add: main_no_canvas error_codes steps_through_simps)
next
  case no_gpu
  with assms have "c = GpuInNavigator" by (simp add: first_failure_outcomes)
  with no_gpu show ?thesis
    by (simp add: main_no_gpu error_codes steps_through_simps)
next
  case no_adapter
  with assms have "c = RequestAdapter" by (simp add: first_failure_outcomes)
  with no_adapter show ?thesis
    by (simp add: main_no_adapter error_codes steps_through_simps)
next
  case (device_rejected x)
  with assms have "c = RequestDevice" by (simp add: first_failure_outcomes)
  with device_rejected show ?thesis
    by (simp add: main_device_rejected error_codes steps_through_simps)
next
  case no_context
  with assms have "c = GetContext" by (simp add: first_failure_outcomes)
  with no_context show ?thesis
    by (simp add: main_no_context error_codes steps_through_simps)
next
  case success
  with assms show ?thesis by (simp add: first_failure_outcomes)
qed

lemma returns_without_failure:
  assumes "first_failure h = None"
  shows "snd (main h) = Inr ()"
  using assms
  by (cases h rule: main_outcomes) (simp_all add: first_failure_outcomes main_success)

lemma failure_consequences:
  assumes "snd (main h) = Inl err"
  shows "(\<exists>n<5. calls (fst (main h)) = take (Suc n) init_steps
            \<and> spec_failure_code (init_steps ! n) = Some (code err))
    \<and> distinct (calls (fst (main h)))
    \<and> final_state (main h) = FailedState (code err)
    \<and> program h gs =
        fst (main h) @ [LoggerError (Passed (ThrownAppError err)) ''main_initialization'']
    \<and> \<not> registers_callback (fst (main h))
    \<and> \<not> registers_callback (program h gs)"
proof -
  have state: "final_state (main h) = FailedState (code err)"
    using assms by (cases "main h") simp
  have quiet: "\<not> registers_callback (fst (main h))"
    using assms by (rule failure_no_callback)
  have report: "program h gs =
      fst (main h) @ [LoggerError (Passed (ThrownAppError err)) ''main_initialization'']"
    using assms by (rule failure_reported)
  have "\<not> registers_callback (program h gs)"
    using quiet by (simp add: report registers_callback_def)
  with state quiet report failure_stops [OF assms] calls_distinct [of h]
  show ?thesis by blast
qed

text \<open>
  Claim C5. Let \<open>c\<close> be the first of the five steps that fails on the host. Then \<open>main\<close>
  throws an error with the code designated for \<open>c\<close>, and the host calls it has made are
  the steps up to and including \<open>c\<close>: no later step is attempted. \<open>main\<close> throws only
  when some step fails, and returns when none does. In every run that throws, each call
  is made once, the run ends in the failed state with the error's code, the top-level
  handler reports that very error to the logger tagged \<open>main_initialization\<close> as the
  last event of the program, no frame callback is registered and, whatever the host
  would do in later frames, no frame runs.
\<close>

theorem init_failure_stops_pipeline:
  "(first_failure h = Some c \<longrightarrow>
      (\<exists>e. snd (main h) = Inl e
         \<and> spec_failure_code c = Some (code e)
         \<and> calls (fst (main h)) = steps_through c
         \<and> final_state (main h) = FailedState (code e)
         \<and> program h gs =
             fst (main h) @ [LoggerError (Passed (ThrownAppError e)) ''main_initialization'']
         \<and> \<not> registers_callback (program h gs)))
   \<and> (first_failure h = None \<longrightarrow> snd (main h) = Inr ())
   \<and> (snd (main h) = Inl err \<longrightarrow>
        (\<exists>c. first_failure h = Some c \<and> spec_failure_code c = Some (code err)
           \<and> calls (fst (main h)) = steps_through c)
        \<and> (\<exists>n<5. calls (fst (main h)) = take (Suc n) init_steps
              \<and> spec_failure_code (init_steps ! n) = Some (code err))
        \<and> distinct (calls (fst (main h)))
        \<and> final_state (main h) = FailedState (code err)
        \<and> program h gs =
            fst (main h) @ [LoggerError (Passed (ThrownAppError err)) ''main_initialization'']
        \<and> \<not> registers_callback (fst (main h))
        \<and> \<not> registers_callback (program h gs))"
proof (intro conjI impI)
  assume first: "first_failure h = Some c"
  from throws_at_first_failure [OF first] obtain e where
    e: "snd (main h) = Inl e" "spec_failure_code c = Some (code e)"
      "calls (fst (main h)) = steps_through c"
    by blast
  from failure_consequences [OF e(1), of gs] e
  show "\<exists>e. snd (main h) = Inl e
         \<and> spec_failure_code c = Some (code e)
         \<and> calls (fst (main h)) = steps_through c
         \<and> final_state (main h) = FailedState (code e)
         \<and> program h gs =
             fst (main h) @ [LoggerError (Passed (ThrownAppError e)) ''main_initialization'']
         \<and> \<not> registers_callback (program h gs)"
    by blast
next
  assume "first_failure h = None"
  then show "snd (main h) = Inr ()" by (rule returns_without_failure)
next
  assume thrown: "snd (main h) = Inl err"
  have "first_failure h \<noteq> None"
    using thrown returns_without_failure [of h] by auto
  then obtain c where first: "first_failure h = Some c" by blast
  from throws_at_first_failure [OF first] thrown
  have "spec_failure_code c = Some (code err) \<and> calls (fst (main h)) = steps_through c"
    by auto
  with first
  show "\<exists>c. first_failure h = Some c \<and> spec_failure_code c = Some (code err)
           \<and> calls (fst (main h)) = steps_through c"
    by blast
next
  assume thrown: "snd (main h) = Inl err"
  from failure_consequences [OF thrown, of gs]
  show "\<exists>n<5. calls (fst (main h)) = take (Suc n) init_steps
              \<and> spec_failure_code (init_steps ! n) = Some (code err)"
    and "distinct (calls (fst (main h)))"
    and "final_state (main h) = FailedState (code err)"
    and "program h gs =
            fst (main h) @ [LoggerError (Passed (ThrownAppError err)) ''main_initialization'']"
    and "\<not> registers_callback (fst (main h))"
    and "\<not> registers_callback (program h gs)"
    by blast+
qed

theorem init_failure_stops_pipeline_witness:
  "first_failure \<lparr> canvas_found = True, gpu_in_navigator = True, adapter_found = False,
               requestDevice_rejects = Some JNull, context_found = False,
               engine_stack = None \<rparr> = Some RequestAdapter
   \<and> snd (main \<lparr> canvas_found = True, gpu_in_navigator = True, adapter_found = False,
               requestDevice_rejects = Some JNull, context_found = False,
               engine_stack = None \<rparr>) =
     Inl (AdapterNotFoundError JUndefined None)
   \<and> calls (fst (main \<lparr> canvas_found = True, gpu_in_navigator = True, adapter_found = False,
               requestDevice_rejects = Some JNull, context_found = False,
               engine_stack = None \<rparr>)) = [GetElementById, GpuInNavigator, RequestAdapter]
   \<and> final_state (main \<lparr> canvas_found = True, gpu_in_navigator = True,
               adapter_found = False, requestDevice_rejects = Some JNull,
               context_found = False, engine_stack = None \<rparr>) = FailedState (NotFound, Adapter)
   \<and> \<not> registers_callback (program \<lparr> canvas_found = True, gpu_in_navigator = True,
               adapter_found = False, requestDevice_rejects = Some JNull,
               context_found = False, engine_stack = None \<rparr> [\<lambda>c. None, \<lambda>c. None])
   \<and> first_failure \<lparr> canvas_found = True, gpu_in_navigator = True, adapter_found = True,
               requestDevice_rejects = None, context_found = True,
               engine_stack = None \<rparr> = None
   \<and> snd (main \<lparr> canvas_found = True, gpu_in_navigator = True, adapter_found = True,
               requestDevice_rejects = None, context_found = True,
               engine_stack = None \<rparr>) = Inr ()"
proof -
  let ?h = "\<lparr> canvas_found = True, gpu_in_navigator = True, adapter_found = False,
              requestDevice_rejects = Some JNull, context_found = False,
              engine_stack = None \<rparr>"
  let ?ok = "\<lparr> canvas_found = True, gpu_in_navigator = True, adapter_found = True,
              requestDevice_rejects = None, context_found = True, engine_stack = None \<rparr>"
  let ?gs = "[\<lambda>c. None, \<lambda>c. None] :: FrameHost list"
  have first: "first_failure ?h = Some RequestAdapter"
    by (simp add: first_failure_def init_steps_def)
  have none: "first_failure ?ok = None"
    by (simp add: first_failure_def init_steps_def)
  note stops = init_failure_stops_pipeline
    [where h = ?h and c = RequestAdapter and gs = ?gs
       and err = "AdapterNotFoundError JUndefined None"]
  from stops first obtain e where
    e: "snd (main ?h) = Inl e" "spec_failure_code RequestAdapter = Some (code e)"
      "calls (fst (main ?h)) = steps_through RequestAdapter"
      "final_state (main ?h) = FailedState (code e)"
      "\<not> registers_callback (program ?h ?gs)"
    by blast
  have thrown: "snd (main ?h) = Inl (AdapterNotFoundError JUndefined None)"
    by (simp add: main_def)
  have state: "final_state (main ?h) = FailedState (NotFound, Adapter)"
    using e(2,4) by simp
  have run: "calls (fst (main ?h)) = [GetElementById, GpuInNavigator, RequestAdapter]"
    using e(3) by (simp add: steps_through_simps)
  have ok: "snd (main ?ok) = Inr ()"
    using init_failure_stops_pipeline [where h = ?ok] none by blast
  from first thrown run state e(5) none ok show ?thesis by blast
qed

lemma error_code_strings:
  "codeString (code (CanvasNotFoundError c st)) = ''not_found:canvas''"
  "codeString (code (WebGPUUnavailableError c st)) = ''unavailable:webgpu''"
  "codeString (code (AdapterNotFoundError c st)) = ''not_found:adapter''"
  "codeString (code (DeviceRequestFailedError c st)) = ''failed:device''"
  "codeString (code (ContextInitFailedError c st)) = ''initialization_failed:context''"
  by (simp_all add: error_codes)

lemma rank_lower: "min n 6 \<le> rank (spec_run h n)"
proof (induction n)
  case 0
  show ?case by simp
next
  case (Suc n)
  show ?case
  proof (cases "rank (spec_run h n) < 6")
    case True
    from rank_strict [OF True, of h] Suc show ?thesis by simp
  next
    case False
    with rank_mono [of "spec_run h n" h] show ?thesis by simp
  qed
qed

text \<open>
  While the machine has not reached \<open>Running\<close> or a failed state after \<open>n\<close>
  transitions, \<open>main\<close> makes the call of the next step.
\<close>

lemma next_call_made:
  assumes "rank (spec_run h n) < 6"
  shows "prefix (take (Suc n) init_calls) (calls (fst (main h)))"
proof -
  have "n < 6" using rank_lower [of n h] assms by simp
  then consider "n = 0" | "n = 1" | "n = 2" | "n = 3" | "n = 4" | "n = 5"
    by linarith
  then show ?thesis
  proof cases
    case 1
    then show ?thesis
      by (cases h rule: main_outcomes)
        (simp_all add: main_no_canvas main_no_gpu main_no_adapter main_device_rejected
          main_no_context main_success init_calls_def init_steps_def)
  next
    case 2
    with assms show ?thesis
      by (cases h rule: main_outcomes)
        (simp_all add: main_no_canvas main_no_gpu main_no_adapter main_device_rejected
          main_no_context main_success init_calls_def init_steps_def eval_nat_numeral)
  next
    case 3
    with assms show ?thesis
      by (cases h rule: main_outcomes)
        (simp_all add: main_no_canvas main_no_gpu main_no_adapter main_device_rejected
          main_no_context main_success init_calls_def init_steps_def eval_nat_numeral)
  next
    case 4
    with assms show ?thesis
      by (cases h rule: main_outcomes)
        (simp_all add: main_no_canvas main_no_gpu main_no_adapter main_device_rejected
          main_no_context main_success init_calls_def init_steps_def eval_nat_numeral)
  next
    case 5
    with assms show ?thesis
      by (cases h rule: main_outcomes)
        (simp_all add: main_no_canvas main_no_gpu main_no_adapter main_device_rejected
          main_no_context main_success init_calls_def init_steps_def eval_nat_numeral)
  next
    case 6
    with assms show ?thesis
      by (cases h rule: main_outcomes)
        (simp_all add: main_no_canvas main_no_gpu main_no_adapter main_device_rejected
          main_no_context main_success init_calls_def init_steps_def eval_nat_numeral)
  qed
qed

text \<open>
  Claim C6. The host calls of every run of \<open>main\<close> are an initial part of the fixed
  order: surface lookup, capability check, adapter request, device request, context
  acquisition, then format, configuration and the first frame request; none is made
  twice. A step that fails is the last call of the run and throws the error of its
  designated code: \<open>not_found:canvas\<close>, \<open>unavailable:webgpu\<close>, \<open>not_found:adapter\<close>,
  \<open>failed:device\<close>, \<open>initialization_failed:context\<close>. When no step fails, all eight
  calls are made in that order and \<open>main\<close> returns. The run ends in the state the
  specification's machine reaches from \<open>Idle\<close> in six transitions, and as long as that
  machine is in neither \<open>Running\<close> nor a failed state after \<open>n\<close> transitions, the run
  contains the first \<open>n + 1\<close> calls of the order; the machine never moves backwards,
  moves strictly forwards from every state before \<open>Running\<close>, and stays in a failed
  state once it is there.
\<close>

theorem init_steps_in_order:
  "prefix (calls (fst (main h))) init_calls
   \<and> distinct (calls (fst (main h)))
   \<and> init_calls =
       [GetElementById, GpuInNavigator, RequestAdapter, RequestDevice, GetContext,
        GetPreferredCanvasFormat, Configure, RequestAnimationFrame]
   \<and> (\<not> canvas_found h \<longrightarrow>
         calls (fst (main h)) = take 1 init_steps
         \<and> snd (main h) = Inl (CanvasNotFoundError JUndefined (engine_stack h)))
   \<and> (canvas_found h \<and> \<not> gpu_in_navigator h \<longrightarrow>
         calls (fst (main h)) = take 2 init_steps
         \<and> snd (main h) = Inl (WebGPUUnavailableError JUndefined (engine_stack h)))
   \<and> (canvas_found h \<and> gpu_in_navigator h \<and> \<not> adapter_found h \<longrightarrow>
         calls (fst (main h)) = take 3 init_steps
         \<and> snd (main h) = Inl (AdapterNotFoundError JUndefined (engine_stack h)))
   \<and> (canvas_found h \<and> gpu_in_navigator h \<and> adapter_found h
        \<and> requestDevice_rejects h = Some x \<longrightarrow>
         calls (fst (main h)) = take 4 init_steps
         \<and> snd (main h) = Inl (DeviceRequestFailedError x (engine_stack h)))
   \<and> (canvas_found h \<and> gpu_in_navigator h \<and> adapter_found h
        \<and> requestDevice_rejects h = None \<and> \<not> context_found h \<longrightarrow>
         calls (fst (main h)) = take 5 init_steps
         \<and> snd (main h) = Inl (ContextInitFailedError JUndefined (engine_stack h)))
   \<and> codeString (code (CanvasNotFoundError v st)) = ''not_found:canvas''
   \<and> codeString (code (WebGPUUnavailableError v st)) = ''unavailable:webgpu''
   \<and> codeString (code (AdapterNotFoundError v st)) = ''not_found:adapter''
   \<and> codeString (code (DeviceRequestFailedError v st)) = ''failed:device''
   \<and> codeString (code (ContextInitFailedError v st)) = ''initialization_failed:context''
   \<and> final_state (main h) = spec_run h 6
   \<and> rank s \<le> rank (spec_step h s)
   \<and> (rank s < 6 \<longrightarrow> rank s < rank (spec_step h s))
   \<and> (spec_run h n = FailedState c \<longrightarrow> spec_run h (n + k) = FailedState c)
   \<and> (canvas_found h \<and> gpu_in_navigator h \<and> adapter_found h
        \<and> requestDevice_rejects h = None \<and> context_found h \<longrightarrow>
         calls (fst (main h)) = init_calls \<and> snd (main h) = Inr ())
   \<and> (rank (spec_run h m) < 6 \<longrightarrow>
         prefix (take (Suc m) init_calls) (calls (fst (main h))))"
proof -
  have order: "init_calls =
      [GetElementById, GpuInNavigator, RequestAdapter, RequestDevice, GetContext,
       GetPreferredCanvasFormat, Configure, RequestAnimationFrame]"
    by (simp add: init_calls_def init_steps_def)
  have s1: "\<not> canvas_found h \<longrightarrow>
         calls (fst (main h)) = take 1 init_steps
         \<and> snd (main h) = Inl (CanvasNotFoundError JUndefined (engine_stack h))"
    by (simp add: main_no_canvas init_steps_def)
  have s2: "canvas_found h \<and> \<not> gpu_in_navigator h \<longrightarrow>
         calls (fst (main h)) = take 2 init_steps
         \<and> snd (main h) = Inl (WebGPUUnavailableError JUndefined (engine_stack h))"
    by (simp add: main_no_gpu init_steps_def)
  have s3: "canvas_found h \<and> gpu_in_navigator h \<and> \<not> adapter_found h \<longrightarrow>
         calls (fst (main h)) = take 3 init_steps
         \<and> snd (main h) = Inl (AdapterNotFoundError JUndefined (engine_stack h))"
    by (simp add: main_no_adapter init_steps_def)
  have s4: "canvas_found h \<and> gpu_in_navigator h \<and> adapter_found h
        \<and> requestDevice_rejects h = Some x \<longrightarrow>
         calls (fst (main h)) = take 4 init_steps
         \<and> snd (main h) = Inl (DeviceRequestFailedError x (engine_stack h))"
    by (simp add: main_device_rejected init_steps_def)
  have s5: "canvas_found h \<and> gpu_in_navigator h \<and> adapter_found h
        \<and> requestDevice_rejects h = None \<and> \<not> context_found h \<longrightarrow>
         calls (fst (main h)) = take 5 init_steps
         \<and> snd (main h) = Inl (ContextInitFailedError JUndefined (engine_stack h))"
    by (simp add: main_no_context init_steps_def)
  have s6: "canvas_found h \<and> gpu_in_navigator h \<and> adapter_found h
        \<and> requestDevice_rejects h = None \<and> context_found h \<longrightarrow>
         calls (fst (main h)) = init_calls \<and> snd (main h) = Inr ()"
    by (simp add: main_success init_calls_def init_steps_def)
  have linked: "rank (spec_run h m) < 6 \<longrightarrow>
         prefix (take (Suc m) init_calls) (calls (fst (main h)))"
    using next_call_made by blast
  have forward: "rank s < 6 \<longrightarrow> rank s < rank (spec_step h s)"
    using rank_strict by blast
  have absorbing: "spec_run h n = FailedState c \<longrightarrow> spec_run h (n + k) = FailedState c"
    using failed_absorbing by blast
  show ?thesis
    using calls_prefix [of h] calls_distinct [of h] order s1 s2 s3 s4 s5
      error_code_strings [of v st] final_state_spec_run [of h] rank_mono [of s h]
      forward absorbing s6 linked
    by blast
qed

theorem init_steps_in_order_witness:
  "calls (fst (main \<lparr> canvas_found = False, gpu_in_navigator = True, adapter_found = True,
            requestDevice_rejects = None, context_found = True, engine_stack = None \<rparr>)) =
      [GetElementById]
   \<and> snd (main \<lparr> canvas_found = False, gpu_in_navigator = True, adapter_found = True,
            requestDevice_rejects = None, context_found = True, engine_stack = None \<rparr>) =
      Inl (CanvasNotFoundError JUndefined None)
   \<and> rank Idle < rank (spec_step \<lparr> canvas_found = False, gpu_in_navigator = True,
            adapter_found = True, requestDevice_rejects = None, context_found = True,
            engine_stack = None \<rparr> Idle)
   \<and> spec_run \<lparr> canvas_found = False, gpu_in_navigator = True, adapter_found = True,
            requestDevice_rejects = None, context_found = True, engine_stack = None \<rparr>
        (1 + 5) = FailedState (NotFound, Canvas)
   \<and> calls (fst (main \<lparr> canvas_found = True, gpu_in_navigator = True, adapter_found = True,
            requestDevice_rejects = Some (JString ''device lost''), context_found = True,
            engine_stack = None \<rparr>)) =
      [GetElementById, GpuInNavigator, RequestAdapter, RequestDevice]
   \<and> snd (main \<lparr> canvas_found = True, gpu_in_navigator = True, adapter_found = True,
            requestDevice_rejects = Some (JString ''device lost''), context_found = True,
            engine_stack = None \<rparr>) =
      Inl (DeviceRequestFailedError (JString ''device lost'') None)
   \<and> calls (fst (main \<lparr> canvas_found = True, gpu_in_navigator = True, adapter_found = True,
            requestDevice_rejects = None, context_found = True, engine_stack = None \<rparr>)) =
      [GetElementById, GpuInNavigator, RequestAdapter, RequestDevice, GetContext,
       GetPreferredCanvasFormat, Configure, RequestAnimationFrame]
   \<and> snd (main \<lparr> canvas_found = True, gpu_in_navigator = True, adapter_found = True,
            requestDevice_rejects = None, context_found = True, engine_stack = None \<rparr>) =
      Inr ()
   \<and> prefix [GetElementById, GpuInNavigator, RequestAdapter]
        (calls (fst (main \<lparr> canvas_found = True, gpu_in_navigator = True,
            adapter_found = True, requestDevice_rejects = Some (JString ''device lost''),
            context_found = True, engine_stack = None \<rparr>)))"
proof -
  let ?h1 = "\<lparr> canvas_found = False, gpu_in_navigator = True, adapter_found = True,
            requestDevice_rejects = None, context_found = True, engine_stack = None \<rparr>"
  let ?h2 = "\<lparr> canvas_found = True, gpu_in_navigator = True, adapter_found = True,
            requestDevice_rejects = Some (JString ''device lost''), context_found = True,
            engine_stack = None \<rparr>"
  let ?h3 = "\<lparr> canvas_found = True, gpu_in_navigator = True, adapter_found = True,
            requestDevice_rejects = None, context_found = True, engine_stack = None \<rparr>"
  note first = init_steps_in_order
    [where h = ?h1 and s = Idle and n = 1 and c = "(NotFound, Canvas)" and k = 5]
  note second = init_steps_in_order [where h = ?h2 and x = "JString ''device lost''"]
  have a: "calls (fst (main ?h1)) = take 1 init_steps
      \<and> snd (main ?h1) = Inl (CanvasNotFoundError JUndefined None)"
    using first by simp
  have b: "rank Idle < rank (spec_step ?h1 Idle)"
    using first by simp
  have c: "spec_run ?h1 (1 + 5) = FailedState (NotFound, Canvas)"
    using first by simp
  have d: "calls (fst (main ?h2)) = take 4 init_steps
      \<and> snd (main ?h2) = Inl (DeviceRequestFailedError (JString ''device lost'') None)"
    using second by simp
  have e: "calls (fst (main ?h3)) = init_calls \<and> snd (main ?h3) = Inr ()"
    using init_steps_in_order [where h = ?h3] by simp
  have "rank (spec_run ?h2 2) < 6"
    by (simp add: eval_nat_numeral)
  with init_steps_in_order [where h = ?h2 and m = 2]
  have f: "prefix (take (Suc 2) init_calls) (calls (fst (main ?h2)))"
    by blast
  have a': "calls (fst (main ?h1)) = [GetElementById]"
    using a by (simp add: init_steps_def)
  have d': "calls (fst (main ?h2)) =
      [GetElementById, GpuInNavigator, RequestAdapter, RequestDevice]"
    using d by (simp add: init_steps_def)
  have e': "calls (fst (main ?h3)) =
      [GetElementById, GpuInNavigator, RequestAdapter, RequestDevice, GetContext,
       GetPreferredCanvasFormat, Configure, RequestAnimationFrame]"
    using e by (simp add: init_calls_def init_steps_def)
  have f': "prefix [GetElementById, GpuInNavigator, RequestAdapter] (calls (fst (main ?h2)))"
    using f by (simp add: init_calls_def init_steps_def eval_nat_numeral)
  from a a' b c d d' e e' f' show ?thesis by blast
qed

text \<open>
  Claim C7. When the surface, the API and the adapter are found and the device request
  rejects with \<open>x\<close>, \<open>main\<close> throws a \<open>DeviceRequestFailedError\<close>: the run ends in the
  failed state with code \<open>failed:device\<close>, the error's cause is \<open>x\<close>, its message is
  "Failed to request a GPU device.", it is not shown to the user and it is logged.
\<close>

theorem device_rejection_failed_device:
  assumes "canvas_found h" "gpu_in_navigator h" "adapter_found h"
    and "requestDevice_rejects h = Some x"
  shows "snd (main h) = Inl (DeviceRequestFailedError x (engine_stack h))
    \<and> final_state (main h) = FailedState (Failed, Device)
    \<and> codeString (code (DeviceRequestFailedError x (engine_stack h))) = ''failed:device''
    \<and> cause (DeviceRequestFailedError x (engine_stack h)) = x
    \<and> message (DeviceRequestFailedError x (engine_stack h)) = ''Failed to request a GPU device.''
    \<and> \<not> shouldShowToUser (DeviceRequestFailedError x (engine_stack h))
    \<and> shouldLog (DeviceRequestFailedError x (engine_stack h))"
proof -
  have thrown: "snd (main h) = Inl (DeviceRequestFailedError x (engine_stack h))"
    by (simp add: main_device_rejected [OF assms])
  have state: "final_state (main h) = FailedState (Failed, Device)"
    by (simp add: main_device_rejected [OF assms] error_codes)
  have fields: "cause (DeviceRequestFailedError x (engine_stack h)) = x"
    "message (DeviceRequestFailedError x (engine_stack h)) = ''Failed to request a GPU device.''"
    by (simp_all add: DeviceRequestFailedError_def AppError_new_def getMessageByErrorCode_def)
  have routing: "\<not> shouldShowToUser (DeviceRequestFailedError x (engine_stack h))"
    "shouldLog (DeviceRequestFailedError x (engine_stack h))"
    by (simp_all add: DeviceRequestFailedError_def shouldShowToUser_def shouldLog_def)
  show ?thesis
    using thrown state fields routing by (simp add: error_code_strings)
qed

theorem device_rejection_failed_device_witness:
  "snd (main \<lparr> canvas_found = True, gpu_in_navigator = True, adapter_found = True,
            requestDevice_rejects = Some (JErrorObject ''OperationError'' ''adapter consumed''),
            context_found = True, engine_stack = Some ''Error at main'' \<rparr>) =
     Inl \<lparr> etype = Failed, surface = Device, code = (Failed, Device),
           cause = JErrorObject ''OperationError'' ''adapter consumed'',
           message = ''Failed to request a GPU device.'',
           name = ''DeviceRequestFailedError'', stack = Some ''Error at main'' \<rparr>
   \<and> \<not> shouldShowToUser (DeviceRequestFailedError
           (JErrorObject ''OperationError'' ''adapter consumed'') (Some ''Error at main''))
   \<and> shouldLog (DeviceRequestFailedError
           (JErrorObject ''OperationError'' ''adapter consumed'') (Some ''Error at main''))"
  using device_rejection_failed_device
    [of "\<lparr> canvas_found = True, gpu_in_navigator = True, adapter_found = True,
            requestDevice_rejects = Some (JErrorObject ''OperationError'' ''adapter consumed''),
            context_found = True, engine_stack = Some ''Error at main'' \<rparr>"
        "JErrorObject ''OperationError'' ''adapter consumed''"]
  by (simp add: DeviceRequestFailedError_def AppError_new_def getMessageByErrorCode_def)

text \<open>
  Claim C8. When all five steps succeed, \<open>main\<close> returns normally in the state
  \<open>Running\<close>, having made the eight host calls in order, and its events contain exactly
  one registration of the frame callback, made before it returns; up to the first
  animation frame the program has done nothing else.
\<close>

theorem init_success_schedules_once:
  assumes "canvas_found h" "gpu_in_navigator h" "adapter_found h"
    and "requestDevice_rejects h = None" "context_found h"
  shows "snd (main h) = Inr ()
    \<and> final_state (main h) = Running
    \<and> calls (fst (main h)) = init_calls
    \<and> length (filter (\<lambda>e. e = Returned RequestAnimationFrame) (fst (main h))) = 1
    \<and> registers_callback (fst (main h))
    \<and> program h [] = fst (main h)"
  by (simp add: main_success [OF assms] init_calls_def init_steps_def registers_callback_def
      program_def)

theorem init_success_schedules_once_witness:
  "snd (main \<lparr> canvas_found = True, gpu_in_navigator = True, adapter_found = True,
            requestDevice_rejects = None, context_found = True, engine_stack = None \<rparr>) =
     Inr ()
   \<and> final_state (main \<lparr> canvas_found = True, gpu_in_navigator = True, adapter_found = True,
            requestDevice_rejects = None, context_found = True, engine_stack = None \<rparr>) =
     Running
   \<and> length (filter (\<lambda>e. e = Returned RequestAnimationFrame)
        (fst (main \<lparr> canvas_found = True, gpu_in_navigator = True, adapter_found = True,
            requestDevice_rejects = None, context_found = True, engine_stack = None \<rparr>))) = 1"
  using init_success_schedules_once
    [of "\<lparr> canvas_found = True, gpu_in_navigator = True, adapter_found = True,
            requestDevice_rejects = None, context_found = True, engine_stack = None \<rparr>"]
  by simp

end
